theory Spec2Isabelle
  imports Complex_Main "HOL-Library.Word" "HOL-Library.Sublist"
begin

section \<open>Data model\<close>

text \<open>
  The module under verification exports \<open>parseBeatmap\<close> and \<open>parseScore\<close>. Both
  download a file through \<open>downloadFile\<close>, hash it with \<open>md5\<close>, compare the hash with an
  optional expected one and hand the content to a decoder of \<open>osu-parsers\<close>.

  Node's \<open>Buffer\<close> is a list of bytes, a JavaScript string a \<open>string\<close>. An optional
  property (\<open>undefined\<close> when missing) is an \<open>option\<close>.
\<close>

type_synonym buffer = "8 word list"

text \<open>
  A JavaScript \<open>number\<close>, as far as this module looks at it: the only operation applied
  to a number is the truthiness test of \<open>||=\<close>, which is false exactly at \<open>NaN\<close> and
  at zero.
\<close>

datatype number = NaN | Infinity bool | Num rat

fun truthy_number :: "number \<Rightarrow> bool" where
  "truthy_number NaN = False"
| "truthy_number (Infinity _) = True"
| "truthy_number (Num q) = (q \<noteq> 0)"

text \<open>
  Truthiness of an optional string (\<open>hash &&\<close>, \<open>!savePath\<close>, \<open>savePath ? _ : _\<close>):
  \<open>undefined\<close> and the empty string are falsy.
\<close>

fun truthy :: "string option \<Rightarrow> bool" where
  "truthy None = False"
| "truthy (Some s) = (s \<noteq> [])"

text \<open>\<open>beatmapId?: string | number\<close>.\<close>

datatype ident = IdString string | IdNumber number

text \<open>\<open>IBeatmapParsingOptions\<close>; the fields are prefixed with \<open>bo_\<close>.\<close>

record IBeatmapParsingOptions =
  bo_beatmapId :: "ident option"
  bo_savePath :: "string option"
  bo_fileURL :: "string option"
  bo_hash :: "string option"

text \<open>
  \<open>IScoreParsingOptions\<close> declares \<open>replayURL\<close>, \<open>lifeBar\<close>, \<open>savePath\<close> and \<open>hash\<close>;
  \<open>parseScore\<close> destructures \<open>fileURL\<close> and \<open>hash\<close> from the object it is given, so
  the property \<open>fileURL\<close> of the run-time object is a field of the model too. The fields
  are prefixed with \<open>so_\<close>.
\<close>

record IScoreParsingOptions =
  so_replayURL :: "string option"
  so_lifeBar :: "bool option"
  so_savePath :: "string option"
  so_hash :: "string option"
  so_fileURL :: "string option"

text \<open>\<open>DownloadType\<close> of \<open>osu-downloader\<close> and the configuration object of \<open>downloadFile\<close>.\<close>

datatype DownloadType = Beatmap | Replay

record DownloadOptions =
  cfg_save :: bool
  cfg_id :: "ident option"
  cfg_url :: "string option"
  cfg_type :: "DownloadType option"

text \<open>The answer of the downloader.\<close>

record DownloadResult =
  isSuccessful :: bool
  statusText :: string
  buffer :: "buffer option"
  filePath :: "string option"

text \<open>
  The decoded beatmap of \<open>osu-classes\<close>: the module reads and writes
  \<open>metadata.beatmapId\<close> only, every other field is carried by the record extensions.
\<close>

record BeatmapMetadataSection =
  beatmapId :: number

record 'm IBeatmap =
  metadata :: "'m BeatmapMetadataSection_scheme"

text \<open>\<open>BeatmapParsingResult\<close> and \<open>ScoreParsingResult\<close>: \<open>{ data, hash }\<close>.\<close>

record 'a ParsingResult =
  r_data :: 'a
  r_hash :: string

text \<open>
  \<open>md5\<close> of the npm package of that name takes a string or a buffer; the two call sites
  of this module pass one of each.
\<close>

datatype md5_input = Text string | Bytes buffer

text \<open>
  An exception thrown by a collaborator is its message. The errors the module throws
  itself are all \<open>new Error(message)\<close>; the constructor names the throw site.
\<close>

type_synonym exn = string

datatype error =
    MissingSource string
  | DownloadFailed string
  | HashMismatch string
  | Thrown exn

text \<open>
  The collaborators and built-ins the module calls: \<open>downloadFile\<close> of \<open>./Utils\<close>,
  \<open>readFileSync\<close> of \<open>fs\<close>, \<open>Buffer.prototype.toString\<close>, \<open>md5\<close>, the two decoders,
  \<open>parseInt\<close> and the conversion of a number to a string (\<open>`${id}`\<close> and the argument
  of \<open>parseInt\<close>). \<open>result.filePath as string\<close> is an unchecked cast, so
  \<open>readFileSync\<close> receives whatever the downloader answered.
\<close>

record ('m, 'b, 's) env =
  downloadFile :: "string option \<Rightarrow> DownloadOptions \<Rightarrow> exn + DownloadResult"
  readFileSync :: "string option \<Rightarrow> exn + buffer"
  toString :: "buffer \<Rightarrow> string"
  md5 :: "md5_input \<Rightarrow> string"
  decodeFromString :: "string \<Rightarrow> bool \<Rightarrow> exn + ('m, 'b) IBeatmap_scheme"
  decodeFromBuffer :: "buffer \<Rightarrow> bool \<Rightarrow> exn + 's"
  parseInt :: "string \<Rightarrow> number"
  numberToString :: "number \<Rightarrow> string"

text \<open>The calls to collaborators with an effect or a cost, in the order they are made.\<close>

datatype event =
    DownloadFile "string option" DownloadOptions
  | ReadFileSync "string option"
  | DecodeFromString string bool
  | DecodeFromBuffer buffer bool

type_synonym 'a run = "event list \<times> (error + 'a)"

section \<open>The module\<close>

text \<open>The string form of an identifier: \<open>`${id}`\<close> and \<open>id as string\<close> under \<open>parseInt\<close>.\<close>

fun idText :: "('m, 'b, 's) env \<Rightarrow> ident \<Rightarrow> string" where
  "idText env (IdString s) = s"
| "idText env (IdNumber n) = numberToString env n"

definition parseBeatmapData ::
  "('m, 'b, 's) env \<Rightarrow> buffer \<Rightarrow> string option \<Rightarrow> (('m, 'b) IBeatmap_scheme) ParsingResult run"
where
  "parseBeatmapData env dat hash =
     (let stringified = toString env dat;
          targetHash = md5 env (Text stringified)
      in if truthy hash \<and> hash \<noteq> Some targetHash
         then ([], Inl (HashMismatch ''Wrong beatmap file!''))
         else
           (let parseSb = False
            in ([DecodeFromString stringified parseSb],
                case decodeFromString env stringified parseSb of
                  Inl x \<Rightarrow> Inl (Thrown x)
                | Inr b \<Rightarrow> Inr \<lparr>r_data = b, r_hash = targetHash\<rparr>)))"

text \<open>\<open>parsed.data.metadata.beatmapId ||= parseInt(id as string)\<close>.\<close>

definition backfill ::
  "('m, 'b, 's) env \<Rightarrow> ident \<Rightarrow> ('m, 'b) IBeatmap_scheme \<Rightarrow> ('m, 'b) IBeatmap_scheme"
where
  "backfill env ident b =
     (if truthy_number (beatmapId (metadata b)) then b
      else b\<lparr>metadata := (metadata b)\<lparr>beatmapId := parseInt env (idText env ident)\<rparr>\<rparr>)"

text \<open>
  In the branch without a save path the guard has excluded a missing buffer
  (\<open>result.buffer as Buffer\<close>); the model keeps the branch to stay total, with the
  \<open>TypeError\<close> that \<open>undefined.toString()\<close> would throw. The same holds for
  \<open>parseCustomScore\<close> below.
\<close>

definition parseBeatmapById ::
  "('m, 'b, 's) env \<Rightarrow> ident \<Rightarrow> string option \<Rightarrow> string option
     \<Rightarrow> (('m, 'b) IBeatmap_scheme) ParsingResult run"
where
  "parseBeatmapById env ident hash savePath =
     (let config = \<lparr>cfg_save = (savePath \<noteq> None), cfg_id = Some ident,
                     cfg_url = None, cfg_type = None\<rparr>;
          t1 = [DownloadFile savePath config]
      in case downloadFile env savePath config of
           Inl x \<Rightarrow> (t1, Inl (Thrown x))
         | Inr result \<Rightarrow>
             if \<not> isSuccessful result \<or> (\<not> truthy savePath \<and> buffer result = None)
             then (t1, Inl (DownloadFailed
                     (''Beatmap with ID \"'' @ idText env ident
                        @ ''\" failed to download: \"'' @ statusText result @ ''\"'')))
             else
               (let (t2, dat) =
                      (if truthy savePath
                       then ([ReadFileSync (filePath result)],
                             readFileSync env (filePath result))
                       else ([], case buffer result of
                                   Some b \<Rightarrow> Inr b
                                 | None \<Rightarrow> Inl ''TypeError''))
                in case dat of
                     Inl x \<Rightarrow> (t1 @ t2, Inl (Thrown x))
                   | Inr d \<Rightarrow>
                       (let (t3, parsed) = parseBeatmapData env d hash
                        in (t1 @ t2 @ t3,
                            case parsed of
                              Inl e \<Rightarrow> Inl e
                            | Inr p \<Rightarrow> Inr (p\<lparr>r_data := backfill env ident (r_data p)\<rparr>)))))"

definition parseCustomBeatmap ::
  "('m, 'b, 's) env \<Rightarrow> string \<Rightarrow> string option \<Rightarrow> string option
     \<Rightarrow> (('m, 'b) IBeatmap_scheme) ParsingResult run"
where
  "parseCustomBeatmap env url hash savePath =
     (let config = \<lparr>cfg_save = (savePath \<noteq> None), cfg_id = None,
                     cfg_url = Some url, cfg_type = None\<rparr>;
          t1 = [DownloadFile savePath config]
      in case downloadFile env savePath config of
           Inl x \<Rightarrow> (t1, Inl (Thrown x))
         | Inr result \<Rightarrow>
             if \<not> isSuccessful result \<or> (\<not> truthy savePath \<and> buffer result = None)
             then (t1, Inl (DownloadFailed
                     (''Beatmap from \"'' @ url
                        @ ''\" failed to download: '' @ statusText result)))
             else
               (let (t2, dat) =
                      (if truthy savePath
                       then ([ReadFileSync (filePath result)],
                             readFileSync env (filePath result))
                       else ([], case buffer result of
                                   Some b \<Rightarrow> Inr b
                                 | None \<Rightarrow> Inl ''TypeError''))
                in case dat of
                     Inl x \<Rightarrow> (t1 @ t2, Inl (Thrown x))
                   | Inr d \<Rightarrow>
                       (let (t3, parsed) = parseBeatmapData env d hash
                        in (t1 @ t2 @ t3, parsed))))"

definition parseBeatmap ::
  "('m, 'b, 's) env \<Rightarrow> 'x IBeatmapParsingOptions_scheme
     \<Rightarrow> (('m, 'b) IBeatmap_scheme) ParsingResult run"
where
  "parseBeatmap env options =
     (case bo_beatmapId options of
        Some ident \<Rightarrow> parseBeatmapById env ident (bo_hash options) (bo_savePath options)
      | None \<Rightarrow>
          (case bo_fileURL options of
             Some url \<Rightarrow> parseCustomBeatmap env url (bo_hash options) (bo_savePath options)
           | None \<Rightarrow> ([], Inl (MissingSource ''No beatmap ID or beatmap URL was specified!''))))"

definition parseScoreData ::
  "('m, 'b, 's) env \<Rightarrow> buffer \<Rightarrow> string option \<Rightarrow> 's ParsingResult run"
where
  "parseScoreData env dat hash =
     (let targetHash = md5 env (Bytes dat)
      in if truthy hash \<and> hash \<noteq> Some targetHash
         then ([], Inl (HashMismatch ''Wrong beatmap file!''))
         else
           (let parseReplay = False
            in ([DecodeFromBuffer dat parseReplay],
                case decodeFromBuffer env dat parseReplay of
                  Inl x \<Rightarrow> Inl (Thrown x)
                | Inr s \<Rightarrow> Inr \<lparr>r_data = s, r_hash = targetHash\<rparr>)))"

definition parseCustomScore ::
  "('m, 'b, 's) env \<Rightarrow> string \<Rightarrow> string option \<Rightarrow> 's ParsingResult run"
where
  "parseCustomScore env url hash =
     (let config = \<lparr>cfg_save = False, cfg_id = None,
                     cfg_url = Some url, cfg_type = Some Replay\<rparr>;
          t1 = [DownloadFile (Some []) config]
      in case downloadFile env (Some []) config of
           Inl x \<Rightarrow> (t1, Inl (Thrown x))
         | Inr result \<Rightarrow>
             if \<not> isSuccessful result \<or> buffer result = None
             then (t1, Inl (DownloadFailed ''Replay failed to download!''))
             else
               (case buffer result of
                  None \<Rightarrow> (t1, Inl (Thrown ''TypeError''))
                | Some b \<Rightarrow>
                    (let (t2, parsed) = parseScoreData env b hash
                     in (t1 @ t2, parsed))))"

definition parseScore ::
  "('m, 'b, 's) env \<Rightarrow> 'x IScoreParsingOptions_scheme \<Rightarrow> 's ParsingResult run"
where
  "parseScore env options =
     (case so_fileURL options of
        Some url \<Rightarrow> parseCustomScore env url (so_hash options)
      | None \<Rightarrow> ([], Inl (MissingSource ''No replay URL was specified!'')))"

section \<open>Observations on a run\<close>

text \<open>The calls to a decoder and to the downloader among the events of a run.\<close>

fun isDecode :: "event \<Rightarrow> bool" where
  "isDecode (DecodeFromString _ _) = True"
| "isDecode (DecodeFromBuffer _ _) = True"
| "isDecode _ = False"

fun isDownload :: "event \<Rightarrow> bool" where
  "isDownload (DownloadFile _ _) = True"
| "isDownload _ = False"

definition decodeCalls :: "event list \<Rightarrow> event list" where
  "decodeCalls tr = filter isDecode tr"

definition downloadCalls :: "event list \<Rightarrow> event list" where
  "downloadCalls tr = filter isDownload tr"

text \<open>
  The configuration a request is downloaded with: the one with the identifier when
  \<open>beatmapId\<close> is set, else the one with the URL when \<open>fileURL\<close> is set.
\<close>

definition beatmapRequest :: "'x IBeatmapParsingOptions_scheme \<Rightarrow> DownloadOptions option" where
  "beatmapRequest options =
     (case bo_beatmapId options of
        Some ident \<Rightarrow> Some \<lparr>cfg_save = (bo_savePath options \<noteq> None), cfg_id = Some ident,
                            cfg_url = None, cfg_type = None\<rparr>
      | None \<Rightarrow>
          (case bo_fileURL options of
             Some url \<Rightarrow> Some \<lparr>cfg_save = (bo_savePath options \<noteq> None), cfg_id = None,
                               cfg_url = Some url, cfg_type = None\<rparr>
           | None \<Rightarrow> None))"

definition scoreRequest :: "'x IScoreParsingOptions_scheme \<Rightarrow> DownloadOptions option" where
  "scoreRequest options =
     (case so_fileURL options of
        Some url \<Rightarrow> Some \<lparr>cfg_save = False, cfg_id = None,
                          cfg_url = Some url, cfg_type = Some Replay\<rparr>
      | None \<Rightarrow> None)"

text \<open>
  A successful acquisition and the bytes it yields: the downloader answers, reports
  success, and the content is read back from the file it names (a truthy save path) or
  is the buffer it returned (no save path, among them the \<open>''\<close> of the score pipeline).
\<close>

definition acquired ::
  "('m, 'b, 's) env \<Rightarrow> string option \<Rightarrow> DownloadOptions \<Rightarrow> buffer option"
where
  "acquired env savePath config =
     (case downloadFile env savePath config of
        Inl _ \<Rightarrow> None
      | Inr result \<Rightarrow>
          if \<not> isSuccessful result then None
          else if truthy savePath
          then (case readFileSync env (filePath result) of
                  Inl _ \<Rightarrow> None
                | Inr d \<Rightarrow> Some d)
          else buffer result)"

section \<open>Test doubles of the collaborators\<close>

text \<open>
  A downloader with one fixed answer, a file system with one fixed answer, a decoder
  that returns a beatmap with the given identifier, and an \<open>md5\<close> that keeps its input
  readable. They serve to run the module on concrete requests.
\<close>

definition letter :: "8 word \<Rightarrow> char" where
  "letter b = (if b = 0x6F then CHR ''o'' else if b = 0x73 then CHR ''s''
               else if b = 0x75 then CHR ''u'' else CHR ''?'')"

definition ascii :: "buffer \<Rightarrow> string" where
  "ascii bs = map letter bs"

definition digest :: "md5_input \<Rightarrow> string" where
  "digest i = (case i of Text s \<Rightarrow> ''md5:'' @ s | Bytes bs \<Rightarrow> ''md5:'' @ ascii bs)"

definition double ::
  "DownloadResult \<Rightarrow> exn + buffer \<Rightarrow> number \<Rightarrow> (unit, unit, string) env"
where
  "double answer file n =
     \<lparr>downloadFile = (\<lambda>_ _. Inr answer),
      readFileSync = (\<lambda>p. case p of None \<Rightarrow> Inl ''ERR_INVALID_ARG_TYPE'' | Some _ \<Rightarrow> file),
      toString = ascii,
      md5 = digest,
      decodeFromString = (\<lambda>s sb. Inr \<lparr>metadata = \<lparr>beatmapId = n\<rparr>\<rparr>),
      decodeFromBuffer = (\<lambda>bs fr. Inr (ascii bs)),
      parseInt = (\<lambda>s. if s = ''1234567'' then Num 1234567 else NaN),
      numberToString = (\<lambda>n. if n = Num 1234567 then ''1234567'' else ''NaN'')\<rparr>"

text \<open>The bytes of \<open>osu\<close>.\<close>

definition osu :: buffer where
  "osu = [0x6F, 0x73, 0x75]"

text \<open>Answers of the downloader and requests used below.\<close>

definition inMemory :: DownloadResult where
  "inMemory = \<lparr>isSuccessful = True, statusText = ''OK'', buffer = Some osu, filePath = None\<rparr>"

definition notFound :: DownloadResult where
  "notFound = \<lparr>isSuccessful = False, statusText = ''404'', buffer = None, filePath = None\<rparr>"

definition emptyHanded :: DownloadResult where
  "emptyHanded = \<lparr>isSuccessful = True, statusText = ''OK'', buffer = None, filePath = None\<rparr>"

definition byId :: "string option \<Rightarrow> string option \<Rightarrow> IBeatmapParsingOptions" where
  "byId h sp = \<lparr>bo_beatmapId = Some (IdNumber (Num 1234567)), bo_savePath = sp,
                bo_fileURL = None, bo_hash = h\<rparr>"

definition byURL :: "string option \<Rightarrow> string option \<Rightarrow> IBeatmapParsingOptions" where
  "byURL h sp = \<lparr>bo_beatmapId = None, bo_savePath = sp,
                 bo_fileURL = Some ''https://x/map.osu'', bo_hash = h\<rparr>"

definition replay :: "string option \<Rightarrow> IScoreParsingOptions" where
  "replay h = \<lparr>so_replayURL = None, so_lifeBar = None, so_savePath = None, so_hash = h,
               so_fileURL = Some ''https://x/replay.osr''\<rparr>"

definition idConfig :: "bool \<Rightarrow> DownloadOptions" where
  "idConfig s = \<lparr>cfg_save = s, cfg_id = Some (IdNumber (Num 1234567)), cfg_url = None,
                 cfg_type = None\<rparr>"

definition urlConfig :: "bool \<Rightarrow> DownloadOptions" where
  "urlConfig s = \<lparr>cfg_save = s, cfg_id = None, cfg_url = Some ''https://x/map.osu'',
                  cfg_type = None\<rparr>"

definition replayConfig :: DownloadOptions where
  "replayConfig = \<lparr>cfg_save = False, cfg_id = None, cfg_url = Some ''https://x/replay.osr'',
                   cfg_type = Some Replay\<rparr>"

section \<open>Stages of a run\<close>

lemmas module_defs =
  parseBeatmap_def parseBeatmapById_def parseCustomBeatmap_def parseBeatmapData_def
  parseScore_def parseCustomScore_def parseScoreData_def backfill_def Let_def

lemmas observation_defs =
  decodeCalls_def downloadCalls_def beatmapRequest_def scoreRequest_def acquired_def

lemmas double_defs =
  double_def digest_def ascii_def letter_def osu_def inMemory_def notFound_def
  emptyHanded_def byId_def byURL_def replay_def idConfig_def urlConfig_def
  replayConfig_def

subsection \<open>The hash check\<close>

lemma parseBeatmapData_mismatch:
  "h \<noteq> [] \<Longrightarrow> h \<noteq> md5 env (Text (toString env d)) \<Longrightarrow>
   parseBeatmapData env d (Some h) = ([], Inl (HashMismatch ''Wrong beatmap file!''))"
  by (simp add: parseBeatmapData_def)

lemma parseScoreData_mismatch:
  "h \<noteq> [] \<Longrightarrow> h \<noteq> md5 env (Bytes d) \<Longrightarrow>
   parseScoreData env d (Some h) = ([], Inl (HashMismatch ''Wrong beatmap file!''))"
  by (simp add: parseScoreData_def)

lemma parseBeatmapData_empty_hash:
  "parseBeatmapData env d (Some []) = parseBeatmapData env d None"
  by (simp add: parseBeatmapData_def)

lemma parseScoreData_empty_hash:
  "parseScoreData env d (Some []) = parseScoreData env d None"
  by (simp add: parseScoreData_def)

lemma parseBeatmapData_HashMismatch:
  "parseBeatmapData env d h = (t, Inl (HashMismatch m)) \<Longrightarrow> truthy h"
  by (auto simp: parseBeatmapData_def Let_def split: if_splits sum.splits)

lemma parseScoreData_HashMismatch:
  "parseScoreData env d h = (t, Inl (HashMismatch m)) \<Longrightarrow> truthy h"
  by (auto simp: parseScoreData_def Let_def split: if_splits sum.splits)

lemma parseBeatmapData_not_DownloadFailed:
  "parseBeatmapData env d h = (t, Inl (DownloadFailed m)) \<Longrightarrow> False"
  by (simp add: parseBeatmapData_def Let_def split: sum.splits if_splits)

lemma parseScoreData_not_DownloadFailed:
  "parseScoreData env d h = (t, Inl (DownloadFailed m)) \<Longrightarrow> False"
  by (simp add: parseScoreData_def Let_def split: sum.splits if_splits)

subsection \<open>Runs after a successful acquisition\<close>

lemma parseBeatmap_acquired:
  "beatmapRequest bo = Some cfg \<Longrightarrow> acquired env (bo_savePath bo) cfg = Some d \<Longrightarrow>
   \<exists>t. fst (parseBeatmap env bo) = t @ fst (parseBeatmapData env d (bo_hash bo))
      \<and> decodeCalls t = []
      \<and> snd (parseBeatmap env bo) =
          (case snd (parseBeatmapData env d (bo_hash bo)) of
             Inl e \<Rightarrow> Inl e
           | Inr p \<Rightarrow> Inr (case bo_beatmapId bo of
                             None \<Rightarrow> p
                           | Some i \<Rightarrow> p\<lparr>r_data := backfill env i (r_data p)\<rparr>))"
  by (auto simp: beatmapRequest_def acquired_def parseBeatmap_def parseBeatmapById_def
        parseCustomBeatmap_def decodeCalls_def Let_def
      split: option.splits sum.splits if_splits prod.splits)

lemma parseScore_acquired:
  "scoreRequest so = Some cfg \<Longrightarrow> acquired env (Some []) cfg = Some d \<Longrightarrow>
   parseScore env so =
     (DownloadFile (Some []) cfg # fst (parseScoreData env d (so_hash so)),
      snd (parseScoreData env d (so_hash so)))"
  by (auto simp: scoreRequest_def acquired_def parseScore_def parseCustomScore_def Let_def
      split: option.splits sum.splits if_splits prod.splits)

subsection \<open>Successful runs\<close>

lemma parseBeatmap_success_run:
  "parseBeatmap env bo = (tr, Inr res) \<Longrightarrow>
   \<exists>cfg d b. beatmapRequest bo = Some cfg
      \<and> acquired env (bo_savePath bo) cfg = Some d
      \<and> decodeCalls tr = [DecodeFromString (toString env d) False]
      \<and> downloadCalls tr = [DownloadFile (bo_savePath bo) cfg]
      \<and> decodeFromString env (toString env d) False = Inr b
      \<and> r_data res = (case bo_beatmapId bo of None \<Rightarrow> b | Some i \<Rightarrow> backfill env i b)
      \<and> r_hash res = md5 env (Text (toString env d))"
  by (auto simp: beatmapRequest_def acquired_def parseBeatmap_def parseBeatmapById_def
        parseCustomBeatmap_def parseBeatmapData_def decodeCalls_def downloadCalls_def Let_def
      split: option.splits sum.splits if_splits prod.splits)

lemma parseScore_success_run:
  "parseScore env so = (tr, Inr res) \<Longrightarrow>
   \<exists>cfg d. scoreRequest so = Some cfg
      \<and> acquired env (Some []) cfg = Some d
      \<and> decodeCalls tr = [DecodeFromBuffer d False]
      \<and> downloadCalls tr = [DownloadFile (Some []) cfg]
      \<and> decodeFromBuffer env d False = Inr (r_data res)
      \<and> r_hash res = md5 env (Bytes d)"
  by (auto simp: scoreRequest_def acquired_def parseScore_def parseCustomScore_def
        parseScoreData_def decodeCalls_def downloadCalls_def Let_def
      split: option.splits sum.splits if_splits prod.splits)

subsection \<open>Failed downloads\<close>

lemma parseBeatmapById_DownloadFailed:
  "parseBeatmapById env i h sp = (tr, Inl (DownloadFailed m)) \<Longrightarrow>
   \<exists>r. downloadFile env sp
         \<lparr>cfg_save = (sp \<noteq> None), cfg_id = Some i, cfg_url = None, cfg_type = None\<rparr>
        = Inr r
      \<and> (\<not> isSuccessful r \<or> (\<not> truthy sp \<and> buffer r = None))
      \<and> m = ''Beatmap with ID \"'' @ idText env i @ ''\" failed to download: \"''
              @ statusText r @ ''\"''"
  by (auto simp: parseBeatmapById_def Let_def
      split: sum.splits if_splits prod.splits option.splits
      dest: parseBeatmapData_not_DownloadFailed)

lemma parseCustomBeatmap_DownloadFailed:
  "parseCustomBeatmap env u h sp = (tr, Inl (DownloadFailed m)) \<Longrightarrow>
   \<exists>r. downloadFile env sp
         \<lparr>cfg_save = (sp \<noteq> None), cfg_id = None, cfg_url = Some u, cfg_type = None\<rparr>
        = Inr r
      \<and> (\<not> isSuccessful r \<or> (\<not> truthy sp \<and> buffer r = None))
      \<and> m = ''Beatmap from \"'' @ u @ ''\" failed to download: '' @ statusText r"
  by (auto simp: parseCustomBeatmap_def Let_def
      split: sum.splits if_splits prod.splits option.splits
      dest: parseBeatmapData_not_DownloadFailed)

lemma parseCustomScore_DownloadFailed:
  "parseCustomScore env u h = (tr, Inl (DownloadFailed m)) \<Longrightarrow>
   m = ''Replay failed to download!''"
  by (auto simp: parseCustomScore_def Let_def
      split: sum.splits if_splits prod.splits option.splits
      dest: parseScoreData_not_DownloadFailed)

subsection \<open>The empty expected hash\<close>

lemma parseBeatmapById_HashMismatch:
  "snd (parseBeatmapById env i h sp) = Inl (HashMismatch m) \<Longrightarrow> truthy h"
  by (auto simp: parseBeatmapById_def Let_def
      split: sum.splits if_splits prod.splits option.splits
      dest: parseBeatmapData_HashMismatch)

lemma parseCustomBeatmap_HashMismatch:
  "snd (parseCustomBeatmap env u h sp) = Inl (HashMismatch m) \<Longrightarrow> truthy h"
  by (auto simp: parseCustomBeatmap_def Let_def
      split: sum.splits if_splits prod.splits option.splits
      dest: parseBeatmapData_HashMismatch)

lemma parseCustomScore_HashMismatch:
  "snd (parseCustomScore env u h) = Inl (HashMismatch m) \<Longrightarrow> truthy h"
  by (auto simp: parseCustomScore_def Let_def
      split: sum.splits if_splits prod.splits option.splits
      dest: parseScoreData_HashMismatch)

lemma parseBeatmapById_empty_hash:
  "parseBeatmapById env i (Some []) sp = parseBeatmapById env i None sp"
  unfolding parseBeatmapById_def parseBeatmapData_empty_hash by (rule refl)

lemma parseCustomBeatmap_empty_hash:
  "parseCustomBeatmap env u (Some []) sp = parseCustomBeatmap env u None sp"
  unfolding parseCustomBeatmap_def parseBeatmapData_empty_hash by (rule refl)

lemma parseCustomScore_empty_hash:
  "parseCustomScore env u (Some []) = parseCustomScore env u None"
  unfolding parseCustomScore_def parseScoreData_empty_hash by (rule refl)

section \<open>The hash check comes before the decoder\<close>

text \<open>
  C1, as amended. When the expected hash is a non-empty string that differs from the hash
  of the acquired content (the hash of the text for a beatmap, of the bytes for a score),
  the run ends with the error of the hash check, and no decoder is called in it.
\<close>

theorem hash_mismatch_fails_before_decode:
  "h \<noteq> [] \<Longrightarrow>
   (bo_hash bo = Some h \<and> beatmapRequest bo = Some cfg
      \<and> acquired env (bo_savePath bo) cfg = Some d
      \<and> h \<noteq> md5 env (Text (toString env d))
    \<longrightarrow> snd (parseBeatmap env bo) = Inl (HashMismatch ''Wrong beatmap file!'')
        \<and> decodeCalls (fst (parseBeatmap env bo)) = [])
   \<and> (so_hash so = Some h \<and> scoreRequest so = Some cfg'
      \<and> acquired env (Some []) cfg' = Some d'
      \<and> h \<noteq> md5 env (Bytes d')
    \<longrightarrow> snd (parseScore env so) = Inl (HashMismatch ''Wrong beatmap file!'')
        \<and> decodeCalls (fst (parseScore env so)) = [])"
proof (intro conjI impI)
  assume h: "h \<noteq> []"
  {
    assume a: "bo_hash bo = Some h \<and> beatmapRequest bo = Some cfg
      \<and> acquired env (bo_savePath bo) cfg = Some d
      \<and> h \<noteq> md5 env (Text (toString env d))"
    then have m: "parseBeatmapData env d (bo_hash bo)
        = ([], Inl (HashMismatch ''Wrong beatmap file!''))"
      using h by (simp add: parseBeatmapData_mismatch)
    from a obtain t where
      t: "fst (parseBeatmap env bo) = t @ fst (parseBeatmapData env d (bo_hash bo))"
        "decodeCalls t = []"
        "snd (parseBeatmap env bo) =
          (case snd (parseBeatmapData env d (bo_hash bo)) of
             Inl e \<Rightarrow> Inl e
           | Inr p \<Rightarrow> Inr (case bo_beatmapId bo of
                             None \<Rightarrow> p
                           | Some i \<Rightarrow> p\<lparr>r_data := backfill env i (r_data p)\<rparr>))"
      using parseBeatmap_acquired [of bo cfg env d] by blast
    show "snd (parseBeatmap env bo) = Inl (HashMismatch ''Wrong beatmap file!'')"
      using t(3) m by simp
    show "decodeCalls (fst (parseBeatmap env bo)) = []"
      using t(1,2) m by simp
  }
  {
    assume a: "so_hash so = Some h \<and> scoreRequest so = Some cfg'
      \<and> acquired env (Some []) cfg' = Some d'
      \<and> h \<noteq> md5 env (Bytes d')"
    then have m: "parseScoreData env d' (so_hash so)
        = ([], Inl (HashMismatch ''Wrong beatmap file!''))"
      using h by (simp add: parseScoreData_mismatch)
    from a have p: "parseScore env so =
       (DownloadFile (Some []) cfg' # fst (parseScoreData env d' (so_hash so)),
        snd (parseScoreData env d' (so_hash so)))"
      using parseScore_acquired [of so cfg' env d'] by blast
    show "snd (parseScore env so) = Inl (HashMismatch ''Wrong beatmap file!'')"
      using p m by simp
    show "decodeCalls (fst (parseScore env so)) = []"
      using p m by (simp add: decodeCalls_def)
  }
qed

text \<open>
  The request for beatmap 1234567 and the replay request, both expecting \<open>deadbeef\<close>,
  against a downloader that returns the bytes of \<open>osu\<close>.
\<close>

theorem hash_mismatch_fails_before_decode_witness:
  "''deadbeef'' \<noteq> []
   \<and> bo_hash (byId (Some ''deadbeef'') None) = Some ''deadbeef''
   \<and> beatmapRequest (byId (Some ''deadbeef'') None) = Some (idConfig False)
   \<and> acquired (double inMemory (Inl ''ENOENT'') (Num 0)) None (idConfig False) = Some osu
   \<and> ''deadbeef'' \<noteq> md5 (double inMemory (Inl ''ENOENT'') (Num 0))
        (Text (toString (double inMemory (Inl ''ENOENT'') (Num 0)) osu))
   \<and> snd (parseBeatmap (double inMemory (Inl ''ENOENT'') (Num 0))
        (byId (Some ''deadbeef'') None))
       = Inl (HashMismatch ''Wrong beatmap file!'')
   \<and> decodeCalls (fst (parseBeatmap (double inMemory (Inl ''ENOENT'') (Num 0))
        (byId (Some ''deadbeef'') None))) = []
   \<and> so_hash (replay (Some ''deadbeef'')) = Some ''deadbeef''
   \<and> scoreRequest (replay (Some ''deadbeef'')) = Some replayConfig
   \<and> acquired (double inMemory (Inl ''ENOENT'') (Num 0)) (Some []) replayConfig = Some osu
   \<and> ''deadbeef'' \<noteq> md5 (double inMemory (Inl ''ENOENT'') (Num 0)) (Bytes osu)
   \<and> snd (parseScore (double inMemory (Inl ''ENOENT'') (Num 0))
        (replay (Some ''deadbeef'')))
       = Inl (HashMismatch ''Wrong beatmap file!'')
   \<and> decodeCalls (fst (parseScore (double inMemory (Inl ''ENOENT'') (Num 0))
        (replay (Some ''deadbeef'')))) = []"
  using hash_mismatch_fails_before_decode
    [of "''deadbeef''" "byId (Some ''deadbeef'') None" "idConfig False"
        "double inMemory (Inl ''ENOENT'') (Num 0)" osu
        "replay (Some ''deadbeef'')" replayConfig osu]
  by (simp add: observation_defs double_defs)

text \<open>
  C1, as stated, fails at the empty string: the request supplies \<open>hash: ''\<close>, which
  differs from the hash of the downloaded content, and the run decodes the beatmap and
  succeeds.
\<close>

theorem empty_hash_mismatch_counterexample:
  "bo_hash (byId (Some []) None) = Some []
   \<and> acquired (double inMemory (Inl ''ENOENT'') (Num 0)) None (idConfig False) = Some osu
   \<and> [] \<noteq> md5 (double inMemory (Inl ''ENOENT'') (Num 0))
        (Text (toString (double inMemory (Inl ''ENOENT'') (Num 0)) osu))
   \<and> parseBeatmap (double inMemory (Inl ''ENOENT'') (Num 0)) (byId (Some []) None)
       = ([DownloadFile None (idConfig False), DecodeFromString ''osu'' False],
          Inr \<lparr>r_data = \<lparr>metadata = \<lparr>beatmapId = Num 1234567\<rparr>\<rparr>, r_hash = ''md5:osu''\<rparr>)"
  by (simp add: module_defs observation_defs double_defs)

section \<open>The returned hash\<close>

text \<open>
  C2. A successful run makes one call to the decoder, on the content that was acquired
  (its text for a beatmap, its bytes for a score), and the hash it returns is the hash
  of exactly that argument, whatever the request says about an expected hash. When the
  request expects that very hash, the returned hash is the expected one.
\<close>

theorem returned_hash_is_hash_of_decoded_content:
  "(parseBeatmap env bo = (tr, Inr res) \<longrightarrow>
      (\<exists>cfg d. beatmapRequest bo = Some cfg
         \<and> acquired env (bo_savePath bo) cfg = Some d
         \<and> decodeCalls tr = [DecodeFromString (toString env d) False]
         \<and> r_hash res = md5 env (Text (toString env d))
         \<and> (bo_hash bo = Some (md5 env (Text (toString env d)))
              \<longrightarrow> bo_hash bo = Some (r_hash res))))
   \<and> (parseScore env so = (tr', Inr res') \<longrightarrow>
      (\<exists>cfg d. scoreRequest so = Some cfg
         \<and> acquired env (Some []) cfg = Some d
         \<and> decodeCalls tr' = [DecodeFromBuffer d False]
         \<and> r_hash res' = md5 env (Bytes d)
         \<and> (so_hash so = Some (md5 env (Bytes d))
              \<longrightarrow> so_hash so = Some (r_hash res'))))"
proof (intro conjI impI)
  assume "parseBeatmap env bo = (tr, Inr res)"
  from parseBeatmap_success_run [OF this]
  show "\<exists>cfg d. beatmapRequest bo = Some cfg
         \<and> acquired env (bo_savePath bo) cfg = Some d
         \<and> decodeCalls tr = [DecodeFromString (toString env d) False]
         \<and> r_hash res = md5 env (Text (toString env d))
         \<and> (bo_hash bo = Some (md5 env (Text (toString env d)))
              \<longrightarrow> bo_hash bo = Some (r_hash res))"
    by force
next
  assume "parseScore env so = (tr', Inr res')"
  from parseScore_success_run [OF this]
  show "\<exists>cfg d. scoreRequest so = Some cfg
         \<and> acquired env (Some []) cfg = Some d
         \<and> decodeCalls tr' = [DecodeFromBuffer d False]
         \<and> r_hash res' = md5 env (Bytes d)
         \<and> (so_hash so = Some (md5 env (Bytes d))
              \<longrightarrow> so_hash so = Some (r_hash res'))"
    by force
qed

text \<open>Both requests expect the hash the content has.\<close>

theorem returned_hash_is_hash_of_decoded_content_witness:
  "parseBeatmap (double inMemory (Inl ''ENOENT'') (Num 0)) (byId (Some ''md5:osu'') None)
     = ([DownloadFile None (idConfig False), DecodeFromString ''osu'' False],
        Inr \<lparr>r_data = \<lparr>metadata = \<lparr>beatmapId = Num 1234567\<rparr>\<rparr>, r_hash = ''md5:osu''\<rparr>)
   \<and> (\<exists>d. acquired (double inMemory (Inl ''ENOENT'') (Num 0)) None (idConfig False) = Some d
        \<and> decodeCalls [DownloadFile None (idConfig False), DecodeFromString ''osu'' False]
            = [DecodeFromString (toString (double inMemory (Inl ''ENOENT'') (Num 0)) d) False]
        \<and> ''md5:osu'' = md5 (double inMemory (Inl ''ENOENT'') (Num 0))
            (Text (toString (double inMemory (Inl ''ENOENT'') (Num 0)) d)))
   \<and> parseScore (double inMemory (Inl ''ENOENT'') (Num 0)) (replay (Some ''md5:osu''))
     = ([DownloadFile (Some []) replayConfig, DecodeFromBuffer osu False],
        Inr \<lparr>r_data = ''osu'', r_hash = ''md5:osu''\<rparr>)
   \<and> (\<exists>d. acquired (double inMemory (Inl ''ENOENT'') (Num 0)) (Some []) replayConfig = Some d
        \<and> decodeCalls [DownloadFile (Some []) replayConfig, DecodeFromBuffer osu False]
            = [DecodeFromBuffer d False]
        \<and> ''md5:osu'' = md5 (double inMemory (Inl ''ENOENT'') (Num 0)) (Bytes d))"
proof -
  let ?e = "double inMemory (Inl ''ENOENT'') (Num 0)"
  let ?tb = "[DownloadFile None (idConfig False), DecodeFromString ''osu'' False]"
  let ?rb = "\<lparr>r_data = \<lparr>metadata = \<lparr>beatmapId = Num 1234567\<rparr>\<rparr>, r_hash = ''md5:osu''\<rparr>"
  let ?ts = "[DownloadFile (Some []) replayConfig, DecodeFromBuffer osu False]"
  let ?rs = "\<lparr>r_data = ''osu'', r_hash = ''md5:osu''\<rparr>"
  have b: "parseBeatmap ?e (byId (Some ''md5:osu'') None) = (?tb, Inr ?rb)"
    by (simp add: module_defs double_defs)
  have s: "parseScore ?e (replay (Some ''md5:osu'')) = (?ts, Inr ?rs)"
    by (simp add: module_defs double_defs)
  have rb: "beatmapRequest (byId (Some ''md5:osu'') None) = Some (idConfig False)"
    by (simp add: observation_defs double_defs)
  have rs: "scoreRequest (replay (Some ''md5:osu'')) = Some replayConfig"
    by (simp add: observation_defs double_defs)
  have sp: "bo_savePath (byId (Some ''md5:osu'') None) = None"
    by (simp add: byId_def)
  from returned_hash_is_hash_of_decoded_content
    [of ?e "byId (Some ''md5:osu'') None" ?tb ?rb "replay (Some ''md5:osu'')" ?ts ?rs]
    b s rb rs sp
  show ?thesis by auto
qed


section \<open>Requests without a source\<close>

text \<open>
  C3. A beatmap request with neither \<open>beatmapId\<close> nor \<open>fileURL\<close>, and a score request
  without \<open>fileURL\<close>, fail with the error of the missing source; the run has no event
  at all, so the downloader is not called.
\<close>

theorem missing_source_without_download:
  "(bo_beatmapId bo = None \<and> bo_fileURL bo = None \<longrightarrow>
      parseBeatmap env bo
        = ([], Inl (MissingSource ''No beatmap ID or beatmap URL was specified!''))
      \<and> downloadCalls (fst (parseBeatmap env bo)) = [])
   \<and> (so_fileURL so = None \<longrightarrow>
      parseScore env so = ([], Inl (MissingSource ''No replay URL was specified!''))
      \<and> downloadCalls (fst (parseScore env so)) = [])"
  by (simp add: parseBeatmap_def parseScore_def downloadCalls_def)

theorem missing_source_without_download_witness:
  "bo_beatmapId \<lparr>bo_beatmapId = None, bo_savePath = Some ''cache/1.osu'', bo_fileURL = None,
                 bo_hash = Some ''deadbeef''\<rparr> = None
   \<and> bo_fileURL \<lparr>bo_beatmapId = None, bo_savePath = Some ''cache/1.osu'', bo_fileURL = None,
                 bo_hash = Some ''deadbeef''\<rparr> = None
   \<and> parseBeatmap (double inMemory (Inr osu) (Num 0))
        \<lparr>bo_beatmapId = None, bo_savePath = Some ''cache/1.osu'', bo_fileURL = None,
         bo_hash = Some ''deadbeef''\<rparr>
       = ([], Inl (MissingSource ''No beatmap ID or beatmap URL was specified!''))
   \<and> so_fileURL \<lparr>so_replayURL = None, so_lifeBar = None, so_savePath = None,
                 so_hash = None, so_fileURL = None\<rparr> = None
   \<and> parseScore (double inMemory (Inr osu) (Num 0))
        \<lparr>so_replayURL = None, so_lifeBar = None, so_savePath = None,
         so_hash = None, so_fileURL = None\<rparr>
       = ([], Inl (MissingSource ''No replay URL was specified!''))"
  using missing_source_without_download
    [of "\<lparr>bo_beatmapId = None, bo_savePath = Some ''cache/1.osu'', bo_fileURL = None,
          bo_hash = Some ''deadbeef''\<rparr>"
        "double inMemory (Inr osu) (Num 0)"
        "\<lparr>so_replayURL = None, so_lifeBar = None, so_savePath = None,
          so_hash = None, so_fileURL = None\<rparr>"]
  by simp

section \<open>The guard on the downloader's answer\<close>

text \<open>
  C4, as amended. In the beatmap pipeline, when the downloader reports failure, or
  reports success without a buffer while the request has no save path (none, or the
  empty string), the run ends after the download with the error of the failed download.
  In particular success without a buffer and without a save path is a failure.
\<close>

theorem download_guard_fails:
  "beatmapRequest bo = Some cfg \<Longrightarrow>
   downloadFile env (bo_savePath bo) cfg = Inr r \<Longrightarrow>
   \<not> isSuccessful r \<or> (\<not> truthy (bo_savePath bo) \<and> buffer r = None) \<Longrightarrow>
   \<exists>m. parseBeatmap env bo = ([DownloadFile (bo_savePath bo) cfg], Inl (DownloadFailed m))"
  by (auto simp: beatmapRequest_def parseBeatmap_def parseBeatmapById_def
        parseCustomBeatmap_def Let_def split: option.splits)

theorem download_guard_fails_witness:
  "beatmapRequest (byURL None None) = Some (urlConfig False)
   \<and> downloadFile (double emptyHanded (Inr osu) (Num 0)) (bo_savePath (byURL None None))
        (urlConfig False) = Inr emptyHanded
   \<and> isSuccessful emptyHanded
   \<and> \<not> truthy (bo_savePath (byURL None None)) \<and> buffer emptyHanded = None
   \<and> (\<exists>m. parseBeatmap (double emptyHanded (Inr osu) (Num 0)) (byURL None None)
          = ([DownloadFile (bo_savePath (byURL None None)) (urlConfig False)],
             Inl (DownloadFailed m)))"
  using download_guard_fails
    [of "byURL None None" "urlConfig False" "double emptyHanded (Inr osu) (Num 0)"
        emptyHanded]
  by (simp add: observation_defs double_defs)

text \<open>
  C4, as stated, fails when a save path is given: the downloader reports success and
  provides neither a file path nor a buffer, the guard lets the answer through, and the
  run goes on to read the file; what ends it is the exception of \<open>readFileSync\<close>, not
  the error of the failed download.
\<close>

theorem unchecked_file_path_counterexample:
  "beatmapRequest (byId None (Some ''cache/1234567.osu'')) = Some (idConfig True)
   \<and> downloadFile (double emptyHanded (Inr osu) (Num 0)) (Some ''cache/1234567.osu'')
        (idConfig True) = Inr emptyHanded
   \<and> isSuccessful emptyHanded \<and> buffer emptyHanded = None \<and> filePath emptyHanded = None
   \<and> parseBeatmap (double emptyHanded (Inr osu) (Num 0))
        (byId None (Some ''cache/1234567.osu''))
     = ([DownloadFile (Some ''cache/1234567.osu'') (idConfig True), ReadFileSync None],
        Inl (Thrown ''ERR_INVALID_ARG_TYPE''))"
  by (simp add: module_defs observation_defs double_defs)

section \<open>The message of a failed download\<close>

text \<open>
  C5, as amended. A failed download of a beatmap carries the status text of the
  downloader and the source: the message is
  \<open>Beatmap with ID "<id>" failed to download: "<status>"\<close> by identifier and
  \<open>Beatmap from "<url>" failed to download: <status>\<close> by URL. A failed download of a
  replay has the fixed message \<open>Replay failed to download!\<close>, whatever the status text
  and the URL are.
\<close>

theorem download_failure_messages:
  "(bo_beatmapId bo = Some i
      \<and> downloadFile env (bo_savePath bo)
           \<lparr>cfg_save = (bo_savePath bo \<noteq> None), cfg_id = Some i, cfg_url = None,
            cfg_type = None\<rparr> = Inr r
      \<and> snd (parseBeatmap env bo) = Inl (DownloadFailed m)
    \<longrightarrow> m = ''Beatmap with ID \"'' @ idText env i @ ''\" failed to download: \"''
              @ statusText r @ ''\"''
        \<and> sublist (statusText r) m \<and> sublist (idText env i) m)
   \<and> (bo_beatmapId bo' = None \<and> bo_fileURL bo' = Some u
      \<and> downloadFile env (bo_savePath bo')
           \<lparr>cfg_save = (bo_savePath bo' \<noteq> None), cfg_id = None, cfg_url = Some u,
            cfg_type = None\<rparr> = Inr r'
      \<and> snd (parseBeatmap env bo') = Inl (DownloadFailed m')
    \<longrightarrow> m' = ''Beatmap from \"'' @ u @ ''\" failed to download: '' @ statusText r'
        \<and> sublist (statusText r') m' \<and> sublist u m')
   \<and> (snd (parseScore env so) = Inl (DownloadFailed m'')
    \<longrightarrow> m'' = ''Replay failed to download!'')"
proof (intro conjI impI)
  assume a: "bo_beatmapId bo = Some i
      \<and> downloadFile env (bo_savePath bo)
           \<lparr>cfg_save = (bo_savePath bo \<noteq> None), cfg_id = Some i, cfg_url = None,
            cfg_type = None\<rparr> = Inr r
      \<and> snd (parseBeatmap env bo) = Inl (DownloadFailed m)"
  then have "parseBeatmapById env i (bo_hash bo) (bo_savePath bo)
      = (fst (parseBeatmap env bo), Inl (DownloadFailed m))"
    by (auto simp: parseBeatmap_def prod_eq_iff)
  from parseBeatmapById_DownloadFailed [OF this] a
  show m: "m = ''Beatmap with ID \"'' @ idText env i @ ''\" failed to download: \"''
              @ statusText r @ ''\"''"
    by auto
  show "sublist (statusText r) m"
    unfolding m sublist_def by (metis append.assoc)
  show "sublist (idText env i) m"
    unfolding m sublist_def by (metis append.assoc)
next
  assume a: "bo_beatmapId bo' = None \<and> bo_fileURL bo' = Some u
      \<and> downloadFile env (bo_savePath bo')
           \<lparr>cfg_save = (bo_savePath bo' \<noteq> None), cfg_id = None, cfg_url = Some u,
            cfg_type = None\<rparr> = Inr r'
      \<and> snd (parseBeatmap env bo') = Inl (DownloadFailed m')"
  then have "parseCustomBeatmap env u (bo_hash bo') (bo_savePath bo')
      = (fst (parseBeatmap env bo'), Inl (DownloadFailed m'))"
    by (auto simp: parseBeatmap_def prod_eq_iff)
  from parseCustomBeatmap_DownloadFailed [OF this] a
  show m: "m' = ''Beatmap from \"'' @ u @ ''\" failed to download: '' @ statusText r'"
    by auto
  show "sublist (statusText r') m'"
    unfolding m sublist_def by (metis append.assoc append_Nil2)
  show "sublist u m'"
    unfolding m sublist_def by (metis append.assoc)
next
  assume a: "snd (parseScore env so) = Inl (DownloadFailed m'')"
  show "m'' = ''Replay failed to download!''"
  proof (cases "so_fileURL so")
    case None
    with a show ?thesis by (simp add: parseScore_def)
  next
    case (Some u)
    with a have "parseCustomScore env u (so_hash so)
        = (fst (parseScore env so), Inl (DownloadFailed m''))"
      by (simp add: parseScore_def prod_eq_iff)
    then show ?thesis by (rule parseCustomScore_DownloadFailed)
  qed
qed

text \<open>The three requests against a downloader that answers \<open>404\<close>.\<close>

theorem download_failure_messages_witness:
  "snd (parseBeatmap (double notFound (Inr osu) (Num 0)) (byId None None))
     = Inl (DownloadFailed ''Beatmap with ID \"1234567\" failed to download: \"404\"'')
   \<and> sublist (statusText notFound)
        ''Beatmap with ID \"1234567\" failed to download: \"404\"''
   \<and> sublist (idText (double notFound (Inr osu) (Num 0)) (IdNumber (Num 1234567)))
        ''Beatmap with ID \"1234567\" failed to download: \"404\"''
   \<and> snd (parseBeatmap (double notFound (Inr osu) (Num 0)) (byURL None None))
     = Inl (DownloadFailed ''Beatmap from \"https://x/map.osu\" failed to download: 404'')
   \<and> sublist (statusText notFound)
        ''Beatmap from \"https://x/map.osu\" failed to download: 404''
   \<and> sublist ''https://x/map.osu''
        ''Beatmap from \"https://x/map.osu\" failed to download: 404''
   \<and> snd (parseScore (double notFound (Inr osu) (Num 0)) (replay None))
     = Inl (DownloadFailed ''Replay failed to download!'')"
proof -
  let ?e = "double notFound (Inr osu) (Num 0)"
  let ?m = "''Beatmap with ID \"1234567\" failed to download: \"404\"''"
  let ?m' = "''Beatmap from \"https://x/map.osu\" failed to download: 404''"
  have b: "snd (parseBeatmap ?e (byId None None)) = Inl (DownloadFailed ?m)"
    by (simp add: module_defs double_defs)
  have b': "snd (parseBeatmap ?e (byURL None None)) = Inl (DownloadFailed ?m')"
    by (simp add: module_defs double_defs)
  have s: "snd (parseScore ?e (replay None)) = Inl (DownloadFailed ''Replay failed to download!'')"
    by (simp add: module_defs double_defs)
  have i: "bo_beatmapId (byId None None) = Some (IdNumber (Num 1234567))"
    "bo_beatmapId (byURL None None) = None"
    "bo_fileURL (byURL None None) = Some ''https://x/map.osu''"
    by (simp_all add: double_defs)
  have d: "downloadFile ?e (bo_savePath (byId None None))
      \<lparr>cfg_save = (bo_savePath (byId None None) \<noteq> None),
       cfg_id = Some (IdNumber (Num 1234567)), cfg_url = None, cfg_type = None\<rparr>
      = Inr notFound"
    "downloadFile ?e (bo_savePath (byURL None None))
      \<lparr>cfg_save = (bo_savePath (byURL None None) \<noteq> None), cfg_id = None,
       cfg_url = Some ''https://x/map.osu'', cfg_type = None\<rparr>
      = Inr notFound"
    by (simp_all add: double_def)
  from download_failure_messages
    [of "byId None None" "IdNumber (Num 1234567)" ?e notFound ?m
        "byURL None None" "''https://x/map.osu''" notFound ?m'
        "replay None" "''Replay failed to download!''"]
    b b' s i d
  show ?thesis by (simp add: double_defs)
qed

text \<open>
  C5, as stated, fails in the score pipeline: the downloader answers the replay request
  with status \<open>404\<close>, and the message of the error carries neither the status text nor
  the URL.
\<close>

theorem score_download_failure_counterexample:
  "downloadFile (double notFound (Inl ''ENOENT'') (Num 0)) (Some []) replayConfig
     = Inr notFound
   \<and> statusText notFound = ''404''
   \<and> cfg_url replayConfig = Some ''https://x/replay.osr''
   \<and> parseScore (double notFound (Inl ''ENOENT'') (Num 0)) (replay None)
     = ([DownloadFile (Some []) replayConfig],
        Inl (DownloadFailed ''Replay failed to download!''))
   \<and> \<not> sublist ''404'' ''Replay failed to download!''
   \<and> \<not> sublist ''https://x/replay.osr'' ''Replay failed to download!''"
proof -
  have "\<not> sublist ''404'' ''Replay failed to download!''"
    by code_simp
  moreover have "\<not> sublist ''https://x/replay.osr'' ''Replay failed to download!''"
    by code_simp
  ultimately show ?thesis
    by (simp add: module_defs double_defs)
qed

section \<open>Text for beatmaps, bytes for scores\<close>

text \<open>
  C6. On the same acquired bytes, the hash a beatmap run returns is \<open>md5\<close> applied to the
  text the bytes decode to, and the hash a score run returns is \<open>md5\<close> applied to the
  bytes themselves.
\<close>

theorem beatmap_hashes_text_score_hashes_bytes:
  "(beatmapRequest bo = Some cfg \<and> acquired env (bo_savePath bo) cfg = Some d
      \<and> snd (parseBeatmap env bo) = Inr res
    \<longrightarrow> r_hash res = md5 env (Text (toString env d)))
   \<and> (scoreRequest so = Some cfg' \<and> acquired env (Some []) cfg' = Some d
      \<and> snd (parseScore env so) = Inr res'
    \<longrightarrow> r_hash res' = md5 env (Bytes d))"
proof (intro conjI impI)
  assume a: "beatmapRequest bo = Some cfg \<and> acquired env (bo_savePath bo) cfg = Some d
      \<and> snd (parseBeatmap env bo) = Inr res"
  then have "parseBeatmap env bo = (fst (parseBeatmap env bo), Inr res)"
    by (simp add: prod_eq_iff)
  from parseBeatmap_success_run [OF this] a
  show "r_hash res = md5 env (Text (toString env d))" by auto
next
  assume a: "scoreRequest so = Some cfg' \<and> acquired env (Some []) cfg' = Some d
      \<and> snd (parseScore env so) = Inr res'"
  then have "parseScore env so = (fst (parseScore env so), Inr res')"
    by (simp add: prod_eq_iff)
  from parseScore_success_run [OF this] a
  show "r_hash res' = md5 env (Bytes d)" by auto
qed

text \<open>The file is read back from the save path for the beatmap, the buffer is used for the score.\<close>

theorem beatmap_hashes_text_score_hashes_bytes_witness:
  "beatmapRequest (byURL None (Some ''cache/map.osu'')) = Some (urlConfig True)
   \<and> acquired (double (inMemory\<lparr>filePath := Some ''cache/map.osu''\<rparr>) (Inr osu) (Num 0))
        (bo_savePath (byURL None (Some ''cache/map.osu''))) (urlConfig True) = Some osu
   \<and> snd (parseBeatmap (double (inMemory\<lparr>filePath := Some ''cache/map.osu''\<rparr>) (Inr osu) (Num 0))
        (byURL None (Some ''cache/map.osu'')))
     = Inr \<lparr>r_data = \<lparr>metadata = \<lparr>beatmapId = Num 0\<rparr>\<rparr>, r_hash = ''md5:osu''\<rparr>
   \<and> r_hash \<lparr>r_data = \<lparr>metadata = \<lparr>beatmapId = Num 0\<rparr>\<rparr>, r_hash = ''md5:osu''\<rparr>
     = md5 (double (inMemory\<lparr>filePath := Some ''cache/map.osu''\<rparr>) (Inr osu) (Num 0))
        (Text (toString (double (inMemory\<lparr>filePath := Some ''cache/map.osu''\<rparr>) (Inr osu)
                 (Num 0)) osu))
   \<and> scoreRequest (replay None) = Some replayConfig
   \<and> acquired (double (inMemory\<lparr>filePath := Some ''cache/map.osu''\<rparr>) (Inr osu) (Num 0))
        (Some []) replayConfig = Some osu
   \<and> snd (parseScore (double (inMemory\<lparr>filePath := Some ''cache/map.osu''\<rparr>) (Inr osu) (Num 0))
        (replay None))
     = Inr \<lparr>r_data = ''osu'', r_hash = ''md5:osu''\<rparr>
   \<and> r_hash \<lparr>r_data = ''osu'', r_hash = ''md5:osu''\<rparr>
     = md5 (double (inMemory\<lparr>filePath := Some ''cache/map.osu''\<rparr>) (Inr osu) (Num 0))
        (Bytes osu)"
proof -
  let ?e = "double (inMemory\<lparr>filePath := Some ''cache/map.osu''\<rparr>) (Inr osu) (Num 0)"
  let ?rb = "\<lparr>r_data = \<lparr>metadata = \<lparr>beatmapId = Num 0\<rparr>\<rparr>, r_hash = ''md5:osu''\<rparr>"
  let ?rs = "\<lparr>r_data = ''osu'', r_hash = ''md5:osu''\<rparr>"
  have q: "beatmapRequest (byURL None (Some ''cache/map.osu'')) = Some (urlConfig True)"
    "scoreRequest (replay None) = Some replayConfig"
    by (simp_all add: observation_defs double_defs)
  have a: "acquired ?e (bo_savePath (byURL None (Some ''cache/map.osu''))) (urlConfig True)
      = Some osu"
    "acquired ?e (Some []) replayConfig = Some osu"
    by (simp_all add: observation_defs double_defs)
  have b: "snd (parseBeatmap ?e (byURL None (Some ''cache/map.osu''))) = Inr ?rb"
    by (simp add: module_defs double_defs)
  have s: "snd (parseScore ?e (replay None)) = Inr ?rs"
    by (simp add: module_defs double_defs)
  from beatmap_hashes_text_score_hashes_bytes
    [of "byURL None (Some ''cache/map.osu'')" "urlConfig True" ?e osu ?rb
        "replay None" replayConfig ?rs]
    q a b s
  show ?thesis by blast
qed

section \<open>The identifier of the decoded beatmap\<close>

text \<open>
  C7. After a successful run by identifier, the returned beatmap is the decoded one when
  its \<open>metadata.beatmapId\<close> is truthy, and otherwise the decoded one with that field set
  to \<open>parseInt\<close> of the identifier. After a successful run by URL the returned beatmap is
  the decoded one, whatever its \<open>metadata.beatmapId\<close>.
\<close>

theorem beatmap_id_backfill:
  "(bo_beatmapId bo = Some i \<and> parseBeatmap env bo = (tr, Inr res) \<longrightarrow>
      (\<exists>s b. decodeCalls tr = [DecodeFromString s False]
         \<and> decodeFromString env s False = Inr b
         \<and> r_data res =
             (if truthy_number (beatmapId (metadata b)) then b
              else b\<lparr>metadata := (metadata b)\<lparr>beatmapId := parseInt env (idText env i)\<rparr>\<rparr>)))
   \<and> (bo_beatmapId bo' = None \<and> parseBeatmap env bo' = (tr', Inr res') \<longrightarrow>
      (\<exists>s. decodeCalls tr' = [DecodeFromString s False]
         \<and> decodeFromString env s False = Inr (r_data res')))"
proof (intro conjI impI)
  assume a: "bo_beatmapId bo = Some i \<and> parseBeatmap env bo = (tr, Inr res)"
  then have "parseBeatmap env bo = (tr, Inr res)" by simp
  from parseBeatmap_success_run [OF this] a
  show "\<exists>s b. decodeCalls tr = [DecodeFromString s False]
         \<and> decodeFromString env s False = Inr b
         \<and> r_data res =
             (if truthy_number (beatmapId (metadata b)) then b
              else b\<lparr>metadata := (metadata b)\<lparr>beatmapId := parseInt env (idText env i)\<rparr>\<rparr>)"
    by (auto simp: backfill_def)
next
  assume a: "bo_beatmapId bo' = None \<and> parseBeatmap env bo' = (tr', Inr res')"
  then have "parseBeatmap env bo' = (tr', Inr res')" by simp
  from parseBeatmap_success_run [OF this] a
  show "\<exists>s. decodeCalls tr' = [DecodeFromString s False]
         \<and> decodeFromString env s False = Inr (r_data res')"
    by auto
qed

text \<open>
  The decoder returns a beatmap whose identifier is 0: by identifier the result has
  1234567, by URL it has 0.
\<close>

theorem beatmap_id_backfill_witness:
  "bo_beatmapId (byId None None) = Some (IdNumber (Num 1234567))
   \<and> parseBeatmap (double inMemory (Inl ''ENOENT'') (Num 0)) (byId None None)
     = ([DownloadFile None (idConfig False), DecodeFromString ''osu'' False],
        Inr \<lparr>r_data = \<lparr>metadata = \<lparr>beatmapId = Num 1234567\<rparr>\<rparr>, r_hash = ''md5:osu''\<rparr>)
   \<and> (\<exists>s b. decodeCalls [DownloadFile None (idConfig False), DecodeFromString ''osu'' False]
          = [DecodeFromString s False]
        \<and> decodeFromString (double inMemory (Inl ''ENOENT'') (Num 0)) s False = Inr b
        \<and> r_data \<lparr>r_data = \<lparr>metadata = \<lparr>beatmapId = Num 1234567\<rparr>\<rparr>, r_hash = ''md5:osu''\<rparr> =
             (if truthy_number (beatmapId (metadata b)) then b
              else b\<lparr>metadata := (metadata b)\<lparr>beatmapId :=
                     parseInt (double inMemory (Inl ''ENOENT'') (Num 0))
                       (idText (double inMemory (Inl ''ENOENT'') (Num 0))
                          (IdNumber (Num 1234567)))\<rparr>\<rparr>))
   \<and> bo_beatmapId (byURL None None) = None
   \<and> parseBeatmap (double inMemory (Inl ''ENOENT'') (Num 0)) (byURL None None)
     = ([DownloadFile None (urlConfig False), DecodeFromString ''osu'' False],
        Inr \<lparr>r_data = \<lparr>metadata = \<lparr>beatmapId = Num 0\<rparr>\<rparr>, r_hash = ''md5:osu''\<rparr>)
   \<and> (\<exists>s. decodeCalls [DownloadFile None (urlConfig False), DecodeFromString ''osu'' False]
          = [DecodeFromString s False]
        \<and> decodeFromString (double inMemory (Inl ''ENOENT'') (Num 0)) s False
          = Inr (r_data \<lparr>r_data = \<lparr>metadata = \<lparr>beatmapId = Num 0\<rparr>\<rparr>, r_hash = ''md5:osu''\<rparr>))"
proof -
  let ?e = "double inMemory (Inl ''ENOENT'') (Num 0)"
  let ?t = "[DownloadFile None (idConfig False), DecodeFromString ''osu'' False]"
  let ?r = "\<lparr>r_data = \<lparr>metadata = \<lparr>beatmapId = Num 1234567\<rparr>\<rparr>, r_hash = ''md5:osu''\<rparr>"
  let ?t' = "[DownloadFile None (urlConfig False), DecodeFromString ''osu'' False]"
  let ?r' = "\<lparr>r_data = \<lparr>metadata = \<lparr>beatmapId = Num 0\<rparr>\<rparr>, r_hash = ''md5:osu''\<rparr>"
  have i: "bo_beatmapId (byId None None) = Some (IdNumber (Num 1234567))"
    "bo_beatmapId (byURL None None) = None"
    by (simp_all add: double_defs)
  have b: "parseBeatmap ?e (byId None None) = (?t, Inr ?r)"
    by (simp add: module_defs double_defs)
  have b': "parseBeatmap ?e (byURL None None) = (?t', Inr ?r')"
    by (simp add: module_defs double_defs)
  from beatmap_id_backfill
    [of "byId None None" "IdNumber (Num 1234567)" ?e ?t ?r "byURL None None" ?t' ?r']
    i b b'
  show ?thesis by blast
qed

section \<open>Requests with both sources\<close>

text \<open>
  C8, as amended. A beatmap request with both an identifier and a file URL is not
  rejected: the identifier takes precedence. The run is that of the same request without
  the URL, and it starts with the download by identifier.
\<close>

theorem identifier_takes_precedence:
  "bo_beatmapId bo = Some i \<Longrightarrow>
   parseBeatmap env bo = parseBeatmap env (bo\<lparr>bo_fileURL := None\<rparr>)
   \<and> (\<exists>tr. fst (parseBeatmap env bo)
        = DownloadFile (bo_savePath bo)
            \<lparr>cfg_save = (bo_savePath bo \<noteq> None), cfg_id = Some i, cfg_url = None,
             cfg_type = None\<rparr> # tr)"
  by (auto simp: parseBeatmap_def parseBeatmapById_def Let_def
      split: sum.splits prod.splits)

theorem identifier_takes_precedence_witness:
  "bo_beatmapId ((byId None None)\<lparr>bo_fileURL := Some ''https://x/map.osu''\<rparr>)
     = Some (IdNumber (Num 1234567))
   \<and> parseBeatmap (double inMemory (Inl ''ENOENT'') (Num 0))
        ((byId None None)\<lparr>bo_fileURL := Some ''https://x/map.osu''\<rparr>)
     = parseBeatmap (double inMemory (Inl ''ENOENT'') (Num 0))
        ((byId None None)\<lparr>bo_fileURL := Some ''https://x/map.osu'', bo_fileURL := None\<rparr>)
   \<and> (\<exists>tr. fst (parseBeatmap (double inMemory (Inl ''ENOENT'') (Num 0))
                 ((byId None None)\<lparr>bo_fileURL := Some ''https://x/map.osu''\<rparr>))
        = DownloadFile
            (bo_savePath ((byId None None)\<lparr>bo_fileURL := Some ''https://x/map.osu''\<rparr>))
            \<lparr>cfg_save =
               (bo_savePath ((byId None None)\<lparr>bo_fileURL := Some ''https://x/map.osu''\<rparr>)
                  \<noteq> None),
             cfg_id = Some (IdNumber (Num 1234567)), cfg_url = None, cfg_type = None\<rparr> # tr)"
proof -
  have i: "bo_beatmapId ((byId None None)\<lparr>bo_fileURL := Some ''https://x/map.osu''\<rparr>)
     = Some (IdNumber (Num 1234567))"
    by (simp add: byId_def)
  from identifier_takes_precedence
    [OF i, of "double inMemory (Inl ''ENOENT'') (Num 0)"] i
  show ?thesis by blast
qed

text \<open>
  C8, as stated, fails: the request carries identifier 1234567 and a file URL, the
  downloader is called with the identifier, and the run succeeds.
\<close>

theorem both_modes_counterexample:
  "bo_beatmapId ((byId None None)\<lparr>bo_fileURL := Some ''https://x/map.osu''\<rparr>)
     = Some (IdNumber (Num 1234567))
   \<and> bo_fileURL ((byId None None)\<lparr>bo_fileURL := Some ''https://x/map.osu''\<rparr>)
     = Some ''https://x/map.osu''
   \<and> parseBeatmap (double inMemory (Inl ''ENOENT'') (Num 0))
        ((byId None None)\<lparr>bo_fileURL := Some ''https://x/map.osu''\<rparr>)
     = ([DownloadFile None (idConfig False), DecodeFromString ''osu'' False],
        Inr \<lparr>r_data = \<lparr>metadata = \<lparr>beatmapId = Num 1234567\<rparr>\<rparr>, r_hash = ''md5:osu''\<rparr>)"
  by (simp add: module_defs double_defs)

section \<open>The replay URL\<close>

text \<open>
  C9. \<open>parseScore\<close> reads the URL from \<open>fileURL\<close> only: a request whose URL is in
  \<open>replayURL\<close>, the field the interface declares, and whose \<open>fileURL\<close> is not set fails
  with the error of the missing source, and the downloader is not called.
\<close>

theorem replayURL_not_consulted:
  "so_fileURL so = None \<Longrightarrow> so_replayURL so = Some u \<Longrightarrow>
   parseScore env so = ([], Inl (MissingSource ''No replay URL was specified!''))
   \<and> downloadCalls (fst (parseScore env so)) = []"
  by (simp add: parseScore_def downloadCalls_def)

theorem replayURL_not_consulted_witness:
  "so_fileURL \<lparr>so_replayURL = Some ''https://x/replay.osr'', so_lifeBar = None,
               so_savePath = None, so_hash = None, so_fileURL = None\<rparr> = None
   \<and> so_replayURL \<lparr>so_replayURL = Some ''https://x/replay.osr'', so_lifeBar = None,
               so_savePath = None, so_hash = None, so_fileURL = None\<rparr>
     = Some ''https://x/replay.osr''
   \<and> parseScore (double inMemory (Inl ''ENOENT'') (Num 0))
        \<lparr>so_replayURL = Some ''https://x/replay.osr'', so_lifeBar = None,
         so_savePath = None, so_hash = None, so_fileURL = None\<rparr>
     = ([], Inl (MissingSource ''No replay URL was specified!''))
   \<and> downloadCalls (fst (parseScore (double inMemory (Inl ''ENOENT'') (Num 0))
        \<lparr>so_replayURL = Some ''https://x/replay.osr'', so_lifeBar = None,
         so_savePath = None, so_hash = None, so_fileURL = None\<rparr>)) = []"
  using replayURL_not_consulted
    [of "\<lparr>so_replayURL = Some ''https://x/replay.osr'', so_lifeBar = None,
          so_savePath = None, so_hash = None, so_fileURL = None\<rparr>"
        "''https://x/replay.osr''" "double inMemory (Inl ''ENOENT'') (Num 0)"]
  by (simp add: downloadCalls_def)

section \<open>The empty expected hash\<close>

text \<open>
  C10. A request whose expected hash is the empty string runs exactly as the same
  request without an expected hash, in both pipelines, and never ends with the error of
  the hash check.
\<close>

theorem empty_hash_skips_validation:
  "(bo_hash bo = Some [] \<longrightarrow>
      parseBeatmap env bo = parseBeatmap env (bo\<lparr>bo_hash := None\<rparr>)
      \<and> (\<forall>m. snd (parseBeatmap env bo) \<noteq> Inl (HashMismatch m)))
   \<and> (so_hash so = Some [] \<longrightarrow>
      parseScore env so = parseScore env (so\<lparr>so_hash := None\<rparr>)
      \<and> (\<forall>m. snd (parseScore env so) \<noteq> Inl (HashMismatch m)))"
proof (intro conjI impI allI)
  assume h: "bo_hash bo = Some []"
  show "parseBeatmap env bo = parseBeatmap env (bo\<lparr>bo_hash := None\<rparr>)"
    using h by (simp add: parseBeatmap_def parseBeatmapById_empty_hash
        parseCustomBeatmap_empty_hash split: option.splits)
  fix m show "snd (parseBeatmap env bo) \<noteq> Inl (HashMismatch m)"
  proof
    assume "snd (parseBeatmap env bo) = Inl (HashMismatch m)"
    then have "truthy (bo_hash bo)"
      by (auto simp: parseBeatmap_def split: option.splits
          dest: parseBeatmapById_HashMismatch parseCustomBeatmap_HashMismatch)
    with h show False by simp
  qed
next
  assume h: "so_hash so = Some []"
  show "parseScore env so = parseScore env (so\<lparr>so_hash := None\<rparr>)"
    using h by (simp add: parseScore_def parseCustomScore_empty_hash
        split: option.splits)
  fix m show "snd (parseScore env so) \<noteq> Inl (HashMismatch m)"
  proof
    assume "snd (parseScore env so) = Inl (HashMismatch m)"
    then have "truthy (so_hash so)"
      by (auto simp: parseScore_def split: option.splits
          dest: parseCustomScore_HashMismatch)
    with h show False by simp
  qed
qed

theorem empty_hash_skips_validation_witness:
  "bo_hash (byId (Some []) None) = Some []
   \<and> parseBeatmap (double inMemory (Inl ''ENOENT'') (Num 0)) (byId (Some []) None)
     = parseBeatmap (double inMemory (Inl ''ENOENT'') (Num 0))
         ((byId (Some []) None)\<lparr>bo_hash := None\<rparr>)
   \<and> (\<forall>m. snd (parseBeatmap (double inMemory (Inl ''ENOENT'') (Num 0))
               (byId (Some []) None)) \<noteq> Inl (HashMismatch m))
   \<and> so_hash (replay (Some [])) = Some []
   \<and> parseScore (double inMemory (Inl ''ENOENT'') (Num 0)) (replay (Some []))
     = parseScore (double inMemory (Inl ''ENOENT'') (Num 0))
         ((replay (Some []))\<lparr>so_hash := None\<rparr>)
   \<and> (\<forall>m. snd (parseScore (double inMemory (Inl ''ENOENT'') (Num 0))
               (replay (Some []))) \<noteq> Inl (HashMismatch m))"
proof -
  have h: "bo_hash (byId (Some []) None) = Some []" "so_hash (replay (Some [])) = Some []"
    by (simp_all add: byId_def replay_def)
  from empty_hash_skips_validation
    [of "byId (Some []) None" "double inMemory (Inl ''ENOENT'') (Num 0)"
        "replay (Some [])"] h
  show ?thesis by blast
qed

end
